theory Spec2Isabelle
  imports Complex_Main
begin

section \<open>Faults\<close>

text \<open>
  The source has no \<^verbatim>\<open>try\<close>/\<^verbatim>\<open>except\<close>: every exception raised by Python or by the
  tensor library leaves the function that was running. An exception is a value here, and a
  function that can raise returns \<open>error + 'a\<close> with \<open>Inl\<close> for the exception.
\<close>

datatype error = IndexError | RuntimeError | ValueError | ZeroDivisionError

section \<open>The dataset wrapper: class CombinedDataset\<close>

text \<open>
  \<^verbatim>\<open>
  class CombinedDataset(Dataset):
      def __init__(self, features, labels, transform=None):
          self.features = features
          self.labels = labels
          self.transform = transform
      def __len__(self):
          return len(self.features)
      def __getitem__(self, idx):
          x = self.features[idx]
          y = self.labels[idx]
          if self.transform:
              x = self.transform(x)
          return x, y
  \<close>
  The two collections are sequences indexed by an integer. The transform is \<open>None\<close> or an
  object that can be called. \<^verbatim>\<open>if self.transform:\<close> asks for its truth value, which an
  object may define to be false (an empty \<^verbatim>\<open>nn.Sequential\<close> is one). The call receives
  the stored feature itself, not a copy: it returns a value or raises, and it may have
  changed the feature in place. So a call gives the result and the feature as the call has
  left it.
\<close>

record 'x callable =
  is_truthy :: bool
  call_on :: "'x \<Rightarrow> (error + 'x) \<times> 'x"

record ('x, 'y) CombinedDataset =
  features :: "'x list"
  labels :: "'y list"
  transform :: "'x callable option"

text \<open>Python's \<^verbatim>\<open>xs[idx]\<close>: a negative index counts from the end, anything else out of
  range raises IndexError.\<close>

definition subscript :: "'a list \<Rightarrow> int \<Rightarrow> error + 'a" where
  "subscript xs idx =
     (let n = int (length xs) in
      if 0 \<le> idx \<and> idx < n then Inr (xs ! nat idx)
      else if - n \<le> idx \<and> idx < 0 then Inr (xs ! nat (n + idx))
      else Inl IndexError)"

text \<open>The place in the list that \<^verbatim>\<open>xs[idx]\<close> names, for an index that is in range.\<close>

definition position :: "'a list \<Rightarrow> int \<Rightarrow> nat" where
  "position xs idx = (if 0 \<le> idx then nat idx else nat (int (length xs) + idx))"

definition CombinedDataset_init ::
  "'x list \<Rightarrow> 'y list \<Rightarrow> 'x callable option \<Rightarrow> ('x, 'y) CombinedDataset" where
  "CombinedDataset_init fs ls t = \<lparr>features = fs, labels = ls, transform = t\<rparr>"

definition CombinedDataset_len :: "('x, 'y) CombinedDataset \<Rightarrow> nat" where
  "CombinedDataset_len self = length (features self)"

text \<open>
  \<^verbatim>\<open>__getitem__\<close> returns the pair or raises, and hands back the dataset as the call has
  left it: the body assigns to no field, and the stored feature at \<open>idx\<close> is what the
  transform has made of it.
\<close>

definition CombinedDataset_getitem ::
  "('x, 'y) CombinedDataset \<Rightarrow> int \<Rightarrow> (error + ('x \<times> 'y)) \<times> ('x, 'y) CombinedDataset" where
  "CombinedDataset_getitem self idx =
     (case subscript (features self) idx of
        Inl e \<Rightarrow> (Inl e, self)
      | Inr x \<Rightarrow>
          (case subscript (labels self) idx of
             Inl e \<Rightarrow> (Inl e, self)
           | Inr y \<Rightarrow>
               (case transform self of
                  None \<Rightarrow> (Inr (x, y), self)
                | Some t \<Rightarrow>
                    if is_truthy t then
                      (case call_on t x of
                         (r, x_after) \<Rightarrow>
                           ((case r of Inl e \<Rightarrow> Inl e | Inr x' \<Rightarrow> Inr (x', y)),
                            self\<lparr>features :=
                                   (features self)[position (features self) idx := x_after]\<rparr>))
                    else (Inr (x, y), self))))"

text \<open>
  A caller sees the object through its two methods. \<^verbatim>\<open>__len__\<close> only reads the length
  of a list; \<^verbatim>\<open>__getitem__\<close> leaves the object as its body has left it.
\<close>

datatype call = Len | GetItem int




section \<open>The device selector: check_gpu\<close>

text \<open>
  \<^verbatim>\<open>
  def check_gpu(manual_seed=True, print_info=True):
      if manual_seed:
          torch.manual_seed(0)
      if torch.cuda.is_available():
          if print_info: print("CUDA is available")
          device = 'cuda'
          torch.cuda.manual_seed_all(0)
      elif torch.backends.mps.is_available():
          if print_info: print("MPS is available")
          device = torch.device("mps")
          torch.mps.manual_seed(0)
      else:
          if print_info: print("CUDA is not available")
          device = 'cpu'
      return device
  \<close>
  What the machine offers is an input; the calls that change something outside the function
  (the generators' seeds, the console) are returned in the order they are made.
\<close>

record accelerators =
  cuda_is_available :: bool
  mps_is_available :: bool

datatype device = cuda | mps | cpu

datatype action =
    torch_manual_seed int
  | torch_cuda_manual_seed_all int
  | torch_mps_manual_seed int
  | print string

definition check_gpu :: "bool \<Rightarrow> bool \<Rightarrow> accelerators \<Rightarrow> device \<times> action list" where
  "check_gpu manual_seed print_info hw =
     (let seeded = (if manual_seed then [torch_manual_seed 0] else []) in
      if cuda_is_available hw then
        (cuda, seeded @ (if print_info then [print ''CUDA is available''] else [])
                 @ [torch_cuda_manual_seed_all 0])
      else if mps_is_available hw then
        (mps, seeded @ (if print_info then [print ''MPS is available''] else [])
                 @ [torch_mps_manual_seed 0])
      else
        (cpu, seeded @ (if print_info then [print ''CUDA is not available''] else [])))"

fun is_seeding :: "action \<Rightarrow> bool" where
  "is_seeding (torch_manual_seed s) = True"
| "is_seeding (torch_cuda_manual_seed_all s) = True"
| "is_seeding (torch_mps_manual_seed s) = True"
| "is_seeding (print msg) = False"

section \<open>Modules of the tensor library\<close>

text \<open>
  A layer is named by the arguments of its constructor, in the order
  \<open>Conv2d in_channels out_channels kernel_size stride padding\<close>,
  \<open>AvgPool2d kernel_size stride\<close>, \<open>MaxPool2d kernel_size stride\<close> (the stride of
  \<^verbatim>\<open>nn.MaxPool2d(2)\<close> is its kernel size), \<open>BatchNorm2d num_features\<close>,
  \<open>Linear in_features out_features\<close>. \<^verbatim>\<open>nn.Sequential\<close> holds modules and calls them
  in order. The weights a constructor draws are not part of this description: it says which
  operation a layer is, which is what the shape of its output and the flow of the data
  depend on.
\<close>

datatype layer =
    Conv2d nat nat nat nat nat
  | AvgPool2d nat nat
  | MaxPool2d nat nat
  | BatchNorm2d nat
  | ReLU
  | Linear nat nat

datatype module = Layer layer | Sequential "module list"

text \<open>
  The library's operations on tensors are arguments of everything below: what calling a
  layer does, \<^verbatim>\<open>a + b\<close>, and \<^verbatim>\<open>x.view(x.size(0), -1)\<close>. Each may raise.
\<close>

record 't torch =
  call_layer :: "layer \<Rightarrow> 't \<Rightarrow> error + 't"
  plus_tensor :: "'t \<Rightarrow> 't \<Rightarrow> error + 't"
  view_rows :: "'t \<Rightarrow> error + 't"

text \<open>An exception raised by a step ends the computation: the steps after it do not run.\<close>

definition and_then :: "error + 'a \<Rightarrow> ('a \<Rightarrow> error + 'b) \<Rightarrow> error + 'b" where
  "and_then r f = (case r of Inl e \<Rightarrow> Inl e | Inr x \<Rightarrow> f x)"


fun call_module :: "'t torch \<Rightarrow> module \<Rightarrow> 't \<Rightarrow> error + 't"
  and call_in_order :: "'t torch \<Rightarrow> module list \<Rightarrow> 't \<Rightarrow> error + 't" where
  "call_module T (Layer l) x = call_layer T l x"
| "call_module T (Sequential ms) x = call_in_order T ms x"
| "call_in_order T [] x = Inr x"
| "call_in_order T (m # ms) x =
     (case call_module T m x of Inl e \<Rightarrow> Inl e | Inr y \<Rightarrow> call_in_order T ms y)"

subsection \<open>Shapes\<close>

text \<open>
  The shape of a tensor is the list of its dimensions. The rules below are those of the
  library's documentation for the output shape of each operation, with the cases in which
  it raises: a channel count that is not the layer's, a kernel larger than the (padded)
  input, a pooled output of size zero, one value per channel in training mode, dimensions
  that do not broadcast, a view whose \<open>-1\<close> is ambiguous.
\<close>

type_synonym shape = "nat list"

definition conv_size :: "nat \<Rightarrow> nat \<Rightarrow> nat \<Rightarrow> nat \<Rightarrow> error + nat" where
  "conv_size n kernel_size stride padding =
     (if stride = 0 \<or> kernel_size = 0 \<or> n + 2 * padding < kernel_size then Inl RuntimeError
      else Inr ((n + 2 * padding - kernel_size) div stride + 1))"

definition pool_size :: "nat \<Rightarrow> nat \<Rightarrow> nat \<Rightarrow> error + nat" where
  "pool_size n kernel_size stride =
     (if stride = 0 \<or> kernel_size = 0 \<or> n < kernel_size then Inl RuntimeError
      else Inr ((n - kernel_size) div stride + 1))"

definition image_shape ::
  "(nat \<Rightarrow> error + nat) \<Rightarrow> nat list \<Rightarrow> nat \<Rightarrow> nat \<Rightarrow> nat \<Rightarrow> error + shape" where
  "image_shape f lead c h w =
     and_then (f h) (\<lambda>h'. and_then (f w) (\<lambda>w'. Inr (lead @ [c, h', w'])))"

text \<open>
  Convolution and pooling take a batch \<open>(N, C, H, W)\<close> or a single image \<open>(C, H, W)\<close>;
  batch normalization takes a batch only and, in training mode, refuses an input with one
  value per channel; a linear layer acts on the last dimension.
\<close>

fun layer_shape :: "bool \<Rightarrow> layer \<Rightarrow> shape \<Rightarrow> error + shape" where
  "layer_shape training (Conv2d c_in c_out k s p) [n, c, h, w] =
     (if c \<noteq> c_in then Inl RuntimeError
      else image_shape (\<lambda>d. conv_size d k s p) [n] c_out h w)"
| "layer_shape training (Conv2d c_in c_out k s p) [c, h, w] =
     (if c \<noteq> c_in then Inl RuntimeError
      else image_shape (\<lambda>d. conv_size d k s p) [] c_out h w)"
| "layer_shape training (Conv2d c_in c_out k s p) x = Inl RuntimeError"
| "layer_shape training (AvgPool2d k s) [n, c, h, w] = image_shape (\<lambda>d. pool_size d k s) [n] c h w"
| "layer_shape training (AvgPool2d k s) [c, h, w] = image_shape (\<lambda>d. pool_size d k s) [] c h w"
| "layer_shape training (AvgPool2d k s) x = Inl RuntimeError"
| "layer_shape training (MaxPool2d k s) [n, c, h, w] = image_shape (\<lambda>d. pool_size d k s) [n] c h w"
| "layer_shape training (MaxPool2d k s) [c, h, w] = image_shape (\<lambda>d. pool_size d k s) [] c h w"
| "layer_shape training (MaxPool2d k s) x = Inl RuntimeError"
| "layer_shape training (BatchNorm2d num_features) [n, c, h, w] =
     (if training \<and> n * h * w = 1 then Inl ValueError
      else if c \<noteq> num_features then Inl RuntimeError
      else Inr [n, c, h, w])"
| "layer_shape training (BatchNorm2d num_features) x = Inl ValueError"
| "layer_shape training ReLU x = Inr x"
| "layer_shape training (Linear in_features out_features) x =
     (if x \<noteq> [] \<and> last x = in_features then Inr (butlast x @ [out_features])
      else Inl RuntimeError)"

text \<open>\<^verbatim>\<open>a + b\<close> broadcasts: the shapes are aligned at their last dimension, and two
  aligned dimensions must be equal unless one of them is 1.\<close>

fun broadcast :: "nat list \<Rightarrow> nat list \<Rightarrow> error + nat list" where
  "broadcast [] ys = Inr ys"
| "broadcast xs [] = Inr xs"
| "broadcast (x # xs) (y # ys) =
     (if x = y \<or> y = 1 then and_then (broadcast xs ys) (\<lambda>zs. Inr (x # zs))
      else if x = 1 then and_then (broadcast xs ys) (\<lambda>zs. Inr (y # zs))
      else Inl RuntimeError)"

definition plus_shape :: "shape \<Rightarrow> shape \<Rightarrow> error + shape" where
  "plus_shape a b = and_then (broadcast (rev a) (rev b)) (\<lambda>zs. Inr (rev zs))"

text \<open>
  \<^verbatim>\<open>x.view(x.size(0), -1)\<close>: \<^verbatim>\<open>x.size(0)\<close> raises IndexError on a tensor without
  dimensions; the \<open>-1\<close> stands for the number of elements divided by the first dimension,
  and the library refuses to choose it when the first dimension is 0.
\<close>

definition view_rows_shape :: "shape \<Rightarrow> error + shape" where
  "view_rows_shape x =
     (case x of
        [] \<Rightarrow> Inl IndexError
      | n # rest \<Rightarrow> if n = 0 then Inl RuntimeError else Inr [n, prod_list rest])"

definition shapes :: "bool \<Rightarrow> shape torch" where
  "shapes training =
     \<lparr>call_layer = layer_shape training, plus_tensor = plus_shape, view_rows = view_rows_shape\<rparr>"

subsection \<open>Data flow\<close>

text \<open>
  With nothing known about the operations, a tensor is the expression that computes it from
  the input: which layers were called on what, and what was added to what.
\<close>

datatype flow = Input | Call layer flow | Plus flow flow | View flow

definition dataflow :: "flow torch" where
  "dataflow =
     \<lparr>call_layer = (\<lambda>l x. Inr (Call l x)), plus_tensor = (\<lambda>a b. Inr (Plus a b)),
      view_rows = (\<lambda>x. Inr (View x))\<rparr>"

section \<open>The models\<close>

subsection \<open>LeNet-5\<close>

text \<open>
  \<^verbatim>\<open>
  def __init__(self, in_channels=1, num_classes=10, input_size=(28, 28)):
      self.conv1 = nn.Conv2d(in_channels, 6, kernel_size=5, stride=1, padding=2)
      self.pool1 = nn.AvgPool2d(kernel_size=2, stride=2)
      self.conv2 = nn.Conv2d(6, 16, kernel_size=5, stride=1)
      self.pool2 = nn.AvgPool2d(kernel_size=2, stride=2)
      dummy_input = torch.zeros(1, in_channels, *input_size)
      dummy_output = self.pool2(self.conv2(self.pool1(self.conv1(dummy_input))))
      self.feature_size = prod(dummy_output.size()[1:])
      self.fc1 = nn.Linear(self.feature_size, 120)
      self.fc2 = nn.Linear(120, 84)
      self.fc3 = nn.Linear(84, num_classes)
  \<close>
  The constructor runs four of its layers on a tensor of zeros and keeps only the size of
  the result, so it is written on shapes; a module is in training mode when it is built.
  It raises when one of the four calls does.
\<close>

record LeNet5 =
  conv1 :: layer
  pool1 :: layer
  conv2 :: layer
  pool2 :: layer
  feature_size :: nat
  fc1 :: layer
  fc2 :: layer
  fc3 :: layer

definition LeNet5_init :: "nat \<Rightarrow> nat \<Rightarrow> nat \<times> nat \<Rightarrow> error + LeNet5" where
  "LeNet5_init in_channels num_classes input_size =
     (let c1 = Conv2d in_channels 6 5 1 2;
          p1 = AvgPool2d 2 2;
          c2 = Conv2d 6 16 5 1 0;
          p2 = AvgPool2d 2 2;
          dummy_input = [1, in_channels, fst input_size, snd input_size]
      in
      and_then (layer_shape True c1 dummy_input) (\<lambda>x.
      and_then (layer_shape True p1 x) (\<lambda>x.
      and_then (layer_shape True c2 x) (\<lambda>x.
      and_then (layer_shape True p2 x) (\<lambda>dummy_output.
        let fs = prod_list (tl dummy_output) in
        Inr \<lparr>conv1 = c1, pool1 = p1, conv2 = c2, pool2 = p2, feature_size = fs,
             fc1 = Linear fs 120, fc2 = Linear 120 84, fc3 = Linear 84 num_classes\<rparr>)))))"

text \<open>
  \<^verbatim>\<open>
  def forward(self, x):
      x = F.relu(self.conv1(x))
      x = self.pool1(x)
      x = F.relu(self.conv2(x))
      x = self.pool2(x)
      x = x.view(x.size(0), -1)
      x = F.relu(self.fc1(x))
      x = F.relu(self.fc2(x))
      x = self.fc3(x)
      return x
  \<close>
\<close>

definition LeNet5_forward :: "'t torch \<Rightarrow> LeNet5 \<Rightarrow> 't \<Rightarrow> error + 't" where
  "LeNet5_forward T self x =
     and_then (call_layer T (conv1 self) x) (\<lambda>x.
     and_then (call_layer T ReLU x) (\<lambda>x.
     and_then (call_layer T (pool1 self) x) (\<lambda>x.
     and_then (call_layer T (conv2 self) x) (\<lambda>x.
     and_then (call_layer T ReLU x) (\<lambda>x.
     and_then (call_layer T (pool2 self) x) (\<lambda>x.
     and_then (view_rows T x) (\<lambda>x.
     and_then (call_layer T (fc1 self) x) (\<lambda>x.
     and_then (call_layer T ReLU x) (\<lambda>x.
     and_then (call_layer T (fc2 self) x) (\<lambda>x.
     and_then (call_layer T ReLU x) (\<lambda>x.
     call_layer T (fc3 self) x)))))))))))"

subsection \<open>ResNet-9\<close>

text \<open>
  \<^verbatim>\<open>
  def residual_block(in_channels, out_channels, pool=False):
      layers = [
          nn.Conv2d(in_channels=in_channels, out_channels=out_channels, kernel_size=3, padding=1),
          nn.BatchNorm2d(out_channels),
          nn.ReLU(inplace=True)
      ]
      if pool:
          layers.append(nn.MaxPool2d(2))
      return nn.Sequential(*layers)
  \<close>
  The in-place ReLU overwrites the tensor the batch normalization has just made, never the
  input of the block.
\<close>

definition residual_block :: "nat \<Rightarrow> nat \<Rightarrow> bool \<Rightarrow> module" where
  "residual_block in_channels out_channels pool =
     (let layers = [Layer (Conv2d in_channels out_channels 3 1 1),
                    Layer (BatchNorm2d out_channels),
                    Layer ReLU]
      in Sequential (if pool then layers @ [Layer (MaxPool2d 2 2)] else layers))"

text \<open>
  \<^verbatim>\<open>
  def __init__(self, in_channels, num_classes, input_size=(28, 28)):
      self.prep = residual_block(in_channels, 64)
      self.layer1_head = residual_block(64, 128, pool=True)
      self.layer1_residual = nn.Sequential(residual_block(128, 128), residual_block(128, 128))
      self.layer2 = residual_block(128, 256, pool=True)
      self.layer3_head = residual_block(256, 512, pool=True)
      self.layer3_residual = nn.Sequential(residual_block(512, 512), residual_block(512, 512))
      self.pool = nn.MaxPool2d(kernel_size=2, stride=2)
      dummy_input = torch.zeros(1, in_channels, *input_size)
      dummy_output = self.pool(self.layer3_head(self.layer2(self.layer1_head(self.prep(dummy_input)))))
      self.feature_size = dummy_output.size(1) * dummy_output.size(2) * dummy_output.size(3)
      self.linear = nn.Linear(self.feature_size, num_classes)
  \<close>
\<close>

record ResNet9 =
  prep :: module
  layer1_head :: module
  layer1_residual :: module
  layer2 :: module
  layer3_head :: module
  layer3_residual :: module
  pool :: layer
  feature_size :: nat
  linear :: layer

definition ResNet9_init :: "nat \<Rightarrow> nat \<Rightarrow> nat \<times> nat \<Rightarrow> error + ResNet9" where
  "ResNet9_init in_channels num_classes input_size =
     (let pr = residual_block in_channels 64 False;
          l1h = residual_block 64 128 True;
          l1r = Sequential [residual_block 128 128 False, residual_block 128 128 False];
          l2 = residual_block 128 256 True;
          l3h = residual_block 256 512 True;
          l3r = Sequential [residual_block 512 512 False, residual_block 512 512 False];
          pl = MaxPool2d 2 2;
          dummy_input = [1, in_channels, fst input_size, snd input_size]
      in
      and_then (call_module (shapes True) pr dummy_input) (\<lambda>x.
      and_then (call_module (shapes True) l1h x) (\<lambda>x.
      and_then (call_module (shapes True) l2 x) (\<lambda>x.
      and_then (call_module (shapes True) l3h x) (\<lambda>x.
      and_then (layer_shape True pl x) (\<lambda>dummy_output.
        let fs = dummy_output ! 1 * dummy_output ! 2 * dummy_output ! 3 in
        Inr \<lparr>prep = pr, layer1_head = l1h, layer1_residual = l1r, layer2 = l2,
             layer3_head = l3h, layer3_residual = l3r, pool = pl, feature_size = fs,
             linear = Linear fs num_classes\<rparr>))))))"

text \<open>
  \<^verbatim>\<open>
  def forward(self, x):
      x = self.prep(x)
      x = self.layer1_head(x)
      x = self.layer1_residual(x) + x
      x = self.layer2(x)
      x = self.layer3_head(x)
      x = self.layer3_residual(x) + x
      x = self.pool(x)
      x = x.view(x.size(0), -1)
      x = self.linear(x)
      return x
  \<close>
\<close>

definition ResNet9_forward :: "'t torch \<Rightarrow> ResNet9 \<Rightarrow> 't \<Rightarrow> error + 't" where
  "ResNet9_forward T self x =
     and_then (call_module T (prep self) x) (\<lambda>x.
     and_then (call_module T (layer1_head self) x) (\<lambda>x.
     and_then (call_module T (layer1_residual self) x) (\<lambda>r.
     and_then (plus_tensor T r x) (\<lambda>x.
     and_then (call_module T (layer2 self) x) (\<lambda>x.
     and_then (call_module T (layer3_head self) x) (\<lambda>x.
     and_then (call_module T (layer3_residual self) x) (\<lambda>r.
     and_then (plus_tensor T r x) (\<lambda>x.
     and_then (call_layer T (pool self) x) (\<lambda>x.
     and_then (view_rows T x) (\<lambda>x.
     call_layer T (linear self) x))))))))))"

section \<open>The train and test loops\<close>

subsection \<open>What the loops call\<close>

text \<open>
  A batch of the loader is a pair \<^verbatim>\<open>(data, target)\<close>: the samples and one class index for
  each. The output of the model on a batch has one row of scores for each sample. Losses
  are real numbers: the rounding of the machine's floating-point sums is left out.
\<close>

record 'x DataLoader =
  batches :: "('x list \<times> nat list) list"
  dataset_len :: nat

text \<open>\<^verbatim>\<open>t.to(device)\<close> leaves the values as they are, and raises when the device is not
  there.\<close>

definition to_device :: "accelerators \<Rightarrow> device \<Rightarrow> 'a \<Rightarrow> error + 'a" where
  "to_device hw d t =
     (if d = cpu \<or> (d = cuda \<and> cuda_is_available hw) \<or> (d = mps \<and> mps_is_available hw)
      then Inr t else Inl RuntimeError)"

text \<open>The cross-entropy loss of one sample: minus the logarithm of the softmax of its row
  at its class.\<close>

definition cross_entropy_sample :: "real list \<Rightarrow> nat \<Rightarrow> real" where
  "cross_entropy_sample row t = ln (sum_list (map exp row)) - row ! t"

text \<open>\<^verbatim>\<open>F.cross_entropy(output, target, reduction='sum')\<close>: raises when the two batch sizes
  differ and when a class index is not a column of the output.\<close>

definition cross_entropy_sum :: "real list list \<Rightarrow> nat list \<Rightarrow> error + real" where
  "cross_entropy_sum output target =
     (if length output \<noteq> length target then Inl ValueError
      else if \<not> list_all (\<lambda>(row, t). t < length row) (zip output target) then Inl IndexError
      else Inr (sum_list (map (\<lambda>(row, t). cross_entropy_sample row t) (zip output target))))"


text \<open>\<^verbatim>\<open>argmax\<close> along a row: the index of the first maximal score; a row without scores
  has none.\<close>

fun argmax_from :: "nat \<Rightarrow> real \<Rightarrow> nat \<Rightarrow> real list \<Rightarrow> nat" where
  "argmax_from best v i [] = best"
| "argmax_from best v i (x # xs) =
     (if v < x then argmax_from i x (Suc i) xs else argmax_from best v (Suc i) xs)"

definition argmax :: "real list \<Rightarrow> error + nat" where
  "argmax row = (case row of [] \<Rightarrow> Inl IndexError | x # xs \<Rightarrow> Inr (argmax_from 0 x 1 xs))"

text \<open>
  \<^verbatim>\<open>
  pred = output.argmax(dim=1, keepdim=True)
  ... pred.eq(target.view_as(pred)).sum().item()
  \<close>
  \<^verbatim>\<open>view_as\<close> raises when there are not as many targets as predictions.
\<close>

definition hit :: "real list \<Rightarrow> nat \<Rightarrow> bool" where
  "hit row t = (argmax row = Inr t)"

definition count_correct :: "real list list \<Rightarrow> nat list \<Rightarrow> error + nat" where
  "count_correct output target =
     (if \<not> list_all (\<lambda>row. row \<noteq> []) output then Inl IndexError
      else if length output \<noteq> length target then Inl RuntimeError
      else Inr (length (filter (\<lambda>(row, t). hit row t) (zip output target))))"

text \<open>
  The model is an object with a state \<open>'m\<close>: calling it returns the output or raises, and
  may change the state; \<^verbatim>\<open>train()\<close> and \<^verbatim>\<open>eval()\<close> switch its mode. The backward pass
  writes gradients into the model, and the optimizer reads and writes the model's parameters
  as well as its own state. Each of these three returns (\<open>None\<close>) or raises (\<open>Some e\<close>),
  and leaves the state it has made.
\<close>

record ('m, 'x, 'p) net =
  model_call :: "'m \<Rightarrow> 'x list \<Rightarrow> (error + real list list) \<times> 'm"
  model_train :: "'m \<Rightarrow> 'm"
  model_eval :: "'m \<Rightarrow> 'm"
  model_parameters :: "'m \<Rightarrow> 'p"


text \<open>What a loop can change: the model, the optimizer and the console. The lines carry
  the values that are formatted into them.\<close>

datatype line =
    Train_Epoch nat nat nat real "real option"
  | Test_set real nat nat real

record ('m, 'o) world =
  model :: 'm
  optimizer :: 'o
  console :: "line list"

subsection \<open>simple_train\<close>




subsection \<open>simple_test\<close>

text \<open>
  \<^verbatim>\<open>
  def simple_test(model, device, test_loader):
      model.eval()
      test_loss = 0
      correct = 0
      with torch.no_grad():
          for data, target in test_loader:
              data, target = data.to(device), target.to(device)
              output = model(data)
              test_loss += F.cross_entropy(output, target, reduction='sum').item()
              pred = output.argmax(dim=1, keepdim=True)
              correct += pred.eq(target.view_as(pred)).sum().item()
      test_loss /= len(test_loader.dataset)
      print(f'\nTest set: Average loss: {test_loss:.4f}, Accuracy: {correct}/{len(test_loader.dataset)} '
            f'({100. * correct / len(test_loader.dataset):.0f}%)\n')
  \<close>
  \<^verbatim>\<open>torch.no_grad()\<close> stops the library from recording gradients inside the loop and
  restores the setting afterwards; it changes none of the three parts of the world. Dividing
  by a dataset size of zero raises ZeroDivisionError.
\<close>

fun test_batches ::
  "accelerators \<Rightarrow> ('m, 'x, 'p) net \<Rightarrow> device \<Rightarrow> ('x list \<times> nat list) list \<Rightarrow> real \<Rightarrow> nat \<Rightarrow> 'm \<Rightarrow>
   (error + real \<times> nat) \<times> 'm" where
  "test_batches hw N dev [] test_loss correct m = (Inr (test_loss, correct), m)"
| "test_batches hw N dev ((data, target) # rest) test_loss correct m =
     (case and_then (to_device hw dev data) (\<lambda>d. and_then (to_device hw dev target) (\<lambda>t. Inr (d, t))) of
        Inl e \<Rightarrow> (Inl e, m)
      | Inr (data, target) \<Rightarrow>
          (case model_call N m data of
             (Inl e, m') \<Rightarrow> (Inl e, m')
           | (Inr output, m') \<Rightarrow>
               (case and_then (cross_entropy_sum output target) (\<lambda>l.
                     and_then (count_correct output target) (\<lambda>c. Inr (l, c))) of
                  Inl e \<Rightarrow> (Inl e, m')
                | Inr (l, c) \<Rightarrow> test_batches hw N dev rest (test_loss + l) (correct + c) m')))"

definition simple_test ::
  "accelerators \<Rightarrow> ('m, 'x, 'p) net \<Rightarrow> device \<Rightarrow> 'x DataLoader \<Rightarrow> ('m, 'o) world \<Rightarrow>
   error option \<times> ('m, 'o) world" where
  "simple_test hw N dev test_loader w =
     (case test_batches hw N dev (batches test_loader) 0 0 (model_eval N (model w)) of
        (Inl e, m) \<Rightarrow> (Some e, w\<lparr>model := m\<rparr>)
      | (Inr (test_loss, correct), m) \<Rightarrow>
          (let n = dataset_len test_loader in
           if n = 0 then (Some ZeroDivisionError, w\<lparr>model := m\<rparr>)
           else (None, w\<lparr>model := m,
                         console := console w @
                           [Test_set (test_loss / real n) correct n (100 * real correct / real n)]\<rparr>)))"


section \<open>Properties of the dataset wrapper\<close>

lemma subscript_in_range:
  "0 \<le> idx \<Longrightarrow> idx < int (length xs) \<Longrightarrow> subscript xs idx = Inr (xs ! nat idx)"
  by (simp add: subscript_def)


text \<open>
  C10. \<^verbatim>\<open>__len__\<close> is the length of the feature collection, whatever the labels are: the
  dataset built from any features, labels and transform has as many items as it has
  features, also when the two collections differ in length.
\<close>

theorem len_is_length_of_features:
  "CombinedDataset_len (CombinedDataset_init fs ls t) = length fs"
  by (simp add: CombinedDataset_len_def CombinedDataset_init_def)

theorem len_is_length_of_features_witness:
  "CombinedDataset_len (CombinedDataset_init [10, 20, 30 :: nat] [0 :: nat] None) = 3"
  using len_is_length_of_features [of "[10, 20, 30 :: nat]" "[0 :: nat]" None] by simp




text \<open>
  C3, as stated, fails: the constructor compares nothing. Three features with one label make
  a dataset of length 3 in which index 1 is in range and has no label.
\<close>

theorem unequal_collections_counterexample:
  "length (features (CombinedDataset_init [10, 20, 30 :: nat] [7 :: nat] None))
     \<noteq> length (labels (CombinedDataset_init [10, 20, 30 :: nat] [7 :: nat] None))
   \<and> (1 :: int) < int (CombinedDataset_len (CombinedDataset_init [10, 20, 30 :: nat] [7 :: nat] None))
   \<and> subscript (labels (CombinedDataset_init [10, 20, 30 :: nat] [7 :: nat] None)) 1 = Inl IndexError
   \<and> fst (CombinedDataset_getitem (CombinedDataset_init [10, 20, 30 :: nat] [7 :: nat] None) 1)
        = Inl IndexError"
  by (simp add: CombinedDataset_init_def CombinedDataset_len_def CombinedDataset_getitem_def
        subscript_def)

text \<open>
  C3, amended. The constructor keeps the two collections and the transform it is given,
  without comparing lengths. When the caller passes collections of equal length, every
  index \<open>0 \<le> idx < len(dataset)\<close> has a feature and a label.
\<close>

theorem init_stores_collections_as_given:
  "features (CombinedDataset_init fs ls t) = fs
   \<and> labels (CombinedDataset_init fs ls t) = ls
   \<and> transform (CombinedDataset_init fs ls t) = t
   \<and> (length fs = length ls \<longrightarrow>
        (\<forall>idx. 0 \<le> idx \<and> idx < int (CombinedDataset_len (CombinedDataset_init fs ls t)) \<longrightarrow>
           subscript (features (CombinedDataset_init fs ls t)) idx = Inr (fs ! nat idx)
           \<and> subscript (labels (CombinedDataset_init fs ls t)) idx = Inr (ls ! nat idx)))"
  by (simp add: CombinedDataset_init_def CombinedDataset_len_def subscript_in_range)

theorem init_stores_collections_as_given_witness:
  "subscript (features (CombinedDataset_init [10, 20 :: nat] [7, 8 :: nat] None)) 1 = Inr 20
   \<and> subscript (labels (CombinedDataset_init [10, 20 :: nat] [7, 8 :: nat] None)) 1 = Inr 8"
  using init_stores_collections_as_given [of "[10, 20 :: nat]" "[7, 8 :: nat]" None]
  by (simp add: CombinedDataset_len_def CombinedDataset_init_def)











section \<open>Properties of the device selector\<close>

text \<open>
  C4, as stated, fails: with \<^verbatim>\<open>manual_seed=False\<close> on a machine with neither CUDA nor MPS,
  \<^verbatim>\<open>check_gpu\<close> prints its line and returns the CPU without seeding anything.
\<close>

theorem check_gpu_no_seed_counterexample:
  "check_gpu False True \<lparr>cuda_is_available = False, mps_is_available = False\<rparr>
     = (cpu, [print ''CUDA is not available''])
   \<and> \<not> list_ex is_seeding
         (snd (check_gpu False True \<lparr>cuda_is_available = False, mps_is_available = False\<rparr>))"
  by (simp add: check_gpu_def)

text \<open>
  C4, amended. \<^verbatim>\<open>check_gpu\<close> returns CUDA when CUDA is available, otherwise MPS when MPS
  is available, otherwise the CPU. It seeds a generator exactly when \<^verbatim>\<open>manual_seed\<close> is
  true or an accelerator is chosen: \<^verbatim>\<open>torch.manual_seed(0)\<close> comes first when
  \<^verbatim>\<open>manual_seed\<close> is true, and the chosen accelerator's generator is seeded last.
\<close>

theorem check_gpu_device_and_seeds:
  "fst (check_gpu manual_seed print_info hw) =
     (if cuda_is_available hw then cuda else if mps_is_available hw then mps else cpu)
   \<and> (list_ex is_seeding (snd (check_gpu manual_seed print_info hw))
        \<longleftrightarrow> manual_seed \<or> cuda_is_available hw \<or> mps_is_available hw)
   \<and> (manual_seed \<longrightarrow> hd (snd (check_gpu manual_seed print_info hw)) = torch_manual_seed 0)
   \<and> (cuda_is_available hw \<longrightarrow>
        last (snd (check_gpu manual_seed print_info hw)) = torch_cuda_manual_seed_all 0)
   \<and> (\<not> cuda_is_available hw \<and> mps_is_available hw \<longrightarrow>
        last (snd (check_gpu manual_seed print_info hw)) = torch_mps_manual_seed 0)"
  by (simp add: check_gpu_def Let_def)

theorem check_gpu_device_and_seeds_witness:
  "check_gpu True True \<lparr>cuda_is_available = True, mps_is_available = False\<rparr>
     = (cuda, [torch_manual_seed 0, print ''CUDA is available'', torch_cuda_manual_seed_all 0])
   \<and> fst (check_gpu True False \<lparr>cuda_is_available = False, mps_is_available = True\<rparr>) = mps
   \<and> last (snd (check_gpu True False \<lparr>cuda_is_available = False, mps_is_available = True\<rparr>))
        = torch_mps_manual_seed 0
   \<and> hd (snd (check_gpu True False \<lparr>cuda_is_available = False, mps_is_available = False\<rparr>))
        = torch_manual_seed 0"
  using check_gpu_device_and_seeds [of True True "\<lparr>cuda_is_available = True, mps_is_available = False\<rparr>"]
        check_gpu_device_and_seeds [of True False "\<lparr>cuda_is_available = False, mps_is_available = True\<rparr>"]
        check_gpu_device_and_seeds [of True False "\<lparr>cuda_is_available = False, mps_is_available = False\<rparr>"]
  by (simp add: check_gpu_def)

section \<open>Properties of the models\<close>

lemma and_then_Inr [simp]: "and_then (Inr x) f = f x"
  by (simp add: and_then_def)

lemma and_then_Inl [simp]: "and_then (Inl e) f = Inl e"
  by (simp add: and_then_def)

lemma image_shape_conv:
  "image_shape (\<lambda>d. conv_size d k s p) lead c h w =
     (if 0 < s \<and> 0 < k \<and> k \<le> h + 2 * p \<and> k \<le> w + 2 * p
      then Inr (lead @ [c, (h + 2 * p - k) div s + 1, (w + 2 * p - k) div s + 1])
      else Inl RuntimeError)"
  by (simp add: image_shape_def conv_size_def)

lemma image_shape_pool:
  "image_shape (\<lambda>d. pool_size d k s) lead c h w =
     (if 0 < s \<and> 0 < k \<and> k \<le> h \<and> k \<le> w
      then Inr (lead @ [c, (h - k) div s + 1, (w - k) div s + 1])
      else Inl RuntimeError)"
  by (simp add: image_shape_def pool_size_def)

lemma and_then_eq_Inr: "and_then r f = Inr y \<longleftrightarrow> (\<exists>x. r = Inr x \<and> f x = Inr y)"
  by (cases r) simp_all

lemma conv_any_batch:
  assumes "layer_shape tr (Conv2d ci co k s p) [1, c, h, w] = Inr r"
  shows "\<exists>h' w'. r = [1, co, h', w'] \<and> 0 < h' \<and> 0 < w'
           \<and> layer_shape tr' (Conv2d ci co k s p) [b, c, h, w] = Inr [b, co, h', w']"
  using assms by (auto simp add: image_shape_conv split: if_splits)

lemma avg_pool_any_batch:
  assumes "layer_shape tr (AvgPool2d k s) [1, c, h, w] = Inr r"
  shows "\<exists>h' w'. r = [1, c, h', w'] \<and> 0 < h' \<and> 0 < w'
           \<and> layer_shape tr' (AvgPool2d k s) [b, c, h, w] = Inr [b, c, h', w']"
  using assms by (auto simp add: image_shape_pool split: if_splits)

lemma max_pool_any_batch:
  assumes "layer_shape tr (MaxPool2d k s) [1, c, h, w] = Inr r"
  shows "\<exists>h' w'. r = [1, c, h', w'] \<and> 0 < h' \<and> 0 < w'
           \<and> layer_shape tr' (MaxPool2d k s) [b, c, h, w] = Inr [b, c, h', w']"
  using assms by (auto simp add: image_shape_pool split: if_splits)

lemma relu_shape: "layer_shape tr ReLU x = Inr x"
  by simp

lemma linear_rows: "layer_shape tr (Linear i out) [b, i] = Inr [b, out]"
  by simp

lemma view_rows_batch: "0 < b \<Longrightarrow> view_rows_shape [b, c, h, w] = Inr [b, prod_list [c, h, w]]"
  by (simp add: view_rows_shape_def)

lemma LeNet5_forward_shape:
  assumes init: "LeNet5_init in_channels num_classes (h, w) = Inr m" and b: "0 < b"
  shows "LeNet5_forward (shapes tr) m [b, in_channels, h, w] = Inr [b, num_classes]"
proof -
  from init obtain s1 s2 s3 s4 where
    s1: "layer_shape True (Conv2d in_channels 6 5 1 2) [1, in_channels, h, w] = Inr s1" and
    s2: "layer_shape True (AvgPool2d 2 2) s1 = Inr s2" and
    s3: "layer_shape True (Conv2d 6 16 5 1 0) s2 = Inr s3" and
    s4: "layer_shape True (AvgPool2d 2 2) s3 = Inr s4" and
    m: "m = \<lparr>conv1 = Conv2d in_channels 6 5 1 2, pool1 = AvgPool2d 2 2, conv2 = Conv2d 6 16 5 1 0,
             pool2 = AvgPool2d 2 2, feature_size = prod_list (tl s4),
             fc1 = Linear (prod_list (tl s4)) 120, fc2 = Linear 120 84,
             fc3 = Linear 84 num_classes\<rparr>"
    unfolding LeNet5_init_def Let_def and_then_eq_Inr fst_conv snd_conv by blast
  from conv_any_batch [OF s1, of tr b] obtain h1 w1 where
    r1: "s1 = [1, 6, h1, w1]" and
    b1: "layer_shape tr (Conv2d in_channels 6 5 1 2) [b, in_channels, h, w] = Inr [b, 6, h1, w1]"
    by blast
  from avg_pool_any_batch [OF s2 [unfolded r1], of tr b] obtain h2 w2 where
    r2: "s2 = [1, 6, h2, w2]" and
    b2: "layer_shape tr (AvgPool2d 2 2) [b, 6, h1, w1] = Inr [b, 6, h2, w2]"
    by blast
  from conv_any_batch [OF s3 [unfolded r2], of tr b] obtain h3 w3 where
    r3: "s3 = [1, 16, h3, w3]" and
    b3: "layer_shape tr (Conv2d 6 16 5 1 0) [b, 6, h2, w2] = Inr [b, 16, h3, w3]"
    by blast
  from avg_pool_any_batch [OF s4 [unfolded r3], of tr b] obtain h4 w4 where
    r4: "s4 = [1, 16, h4, w4]" and
    b4: "layer_shape tr (AvgPool2d 2 2) [b, 16, h3, w3] = Inr [b, 16, h4, w4]"
    by blast
  have fs: "prod_list (tl s4) = prod_list [16, h4, w4]"
    by (simp add: r4)
  show ?thesis
    unfolding LeNet5_forward_def shapes_def m fs
    by (simp only: LeNet5.simps torch.simps relu_shape b1 b2 b3 b4 and_then_Inr
          view_rows_batch [OF b] linear_rows)
qed


lemma residual_block_shape:
  "call_module (shapes tr) (residual_block i out p) [b, c, h, w] =
     (if c \<noteq> i \<or> h = 0 \<or> w = 0 then Inl RuntimeError
      else if tr \<and> b * h * w = 1 then Inl ValueError
      else if p then
        (if 2 \<le> h \<and> 2 \<le> w then Inr [b, out, (h - 2) div 2 + 1, (w - 2) div 2 + 1]
         else Inl RuntimeError)
      else Inr [b, out, h, w])"
  by (simp add: residual_block_def shapes_def image_shape_conv image_shape_pool)

lemma broadcast_same: "broadcast xs xs = Inr xs"
  by (induction xs) simp_all

lemma plus_shape_same: "plus_shape s s = Inr s"
  by (simp add: plus_shape_def broadcast_same)

lemma residual_pair_shape:
  assumes "0 < h" and "0 < w" and "b * h * w \<noteq> 1"
  shows "call_module (shapes tr) (Sequential [residual_block c c False, residual_block c c False])
           [b, c, h, w] = Inr [b, c, h, w]"
  using assms by (simp add: residual_block_shape)


lemma residual_block_any_batch:
  assumes "call_module (shapes True) (residual_block i out p) [1, c, h, w] = Inr r"
  shows "\<exists>h' w'. r = [1, out, h', w'] \<and> 0 < h' \<and> 0 < w'
           \<and> (p \<longrightarrow> 2 * h' \<le> h \<and> 2 * w' \<le> w)
           \<and> (0 < b \<longrightarrow>
                call_module (shapes tr) (residual_block i out p) [b, c, h, w] = Inr [b, out, h', w'])"
proof -
  from assms have c: "c = i" and h: "0 < h" and w: "0 < w" and hw: "h * w \<noteq> 1"
    by (auto simp add: residual_block_shape split: if_splits)
  have bhw: "b * h * w \<noteq> 1"
    using hw by (auto simp add: mult.assoc)
  show ?thesis
  proof (cases p)
    case True
    with assms c h w hw have big: "2 \<le> h \<and> 2 \<le> w"
      and r: "r = [1, out, (h - 2) div 2 + 1, (w - 2) div 2 + 1]"
      by (auto simp add: residual_block_shape split: if_splits)
    have "2 * ((h - 2) div 2 + 1) \<le> h" "2 * ((w - 2) div 2 + 1) \<le> w"
      using big by arith+
    with True c h w bhw big r show ?thesis
      by (simp add: residual_block_shape)
  next
    case False
    with assms c h w hw have r: "r = [1, out, h, w]"
      by (auto simp add: residual_block_shape split: if_splits)
    with False c h w bhw show ?thesis
      by (simp add: residual_block_shape)
  qed
qed

lemma ResNet9_forward_shape:
  assumes init: "ResNet9_init in_channels num_classes (h, w) = Inr m" and b: "0 < b"
  shows "ResNet9_forward (shapes tr) m [b, in_channels, h, w] = Inr [b, num_classes]"
proof -
  from init obtain s1 s2 s3 s4 s5 where
    s1: "call_module (shapes True) (residual_block in_channels 64 False) [1, in_channels, h, w] = Inr s1" and
    s2: "call_module (shapes True) (residual_block 64 128 True) s1 = Inr s2" and
    s3: "call_module (shapes True) (residual_block 128 256 True) s2 = Inr s3" and
    s4: "call_module (shapes True) (residual_block 256 512 True) s3 = Inr s4" and
    s5: "layer_shape True (MaxPool2d 2 2) s4 = Inr s5" and
    m: "m = \<lparr>prep = residual_block in_channels 64 False,
             layer1_head = residual_block 64 128 True,
             layer1_residual = Sequential [residual_block 128 128 False, residual_block 128 128 False],
             layer2 = residual_block 128 256 True,
             layer3_head = residual_block 256 512 True,
             layer3_residual = Sequential [residual_block 512 512 False, residual_block 512 512 False],
             pool = MaxPool2d 2 2,
             feature_size = s5 ! 1 * s5 ! 2 * s5 ! 3,
             linear = Linear (s5 ! 1 * s5 ! 2 * s5 ! 3) num_classes\<rparr>"
    unfolding ResNet9_init_def Let_def and_then_eq_Inr fst_conv snd_conv by blast
  from residual_block_any_batch [OF s1, of b tr] b obtain h1 w1 where
    r1: "s1 = [1, 64, h1, w1]" and
    b1: "call_module (shapes tr) (residual_block in_channels 64 False) [b, in_channels, h, w]
           = Inr [b, 64, h1, w1]"
    by blast
  from residual_block_any_batch [OF s2 [unfolded r1], of b tr] b obtain h2 w2 where
    r2: "s2 = [1, 128, h2, w2]" and
    b2: "call_module (shapes tr) (residual_block 64 128 True) [b, 64, h1, w1] = Inr [b, 128, h2, w2]"
    by blast
  from residual_block_any_batch [OF s3 [unfolded r2], of b tr] b obtain h3 w3 where
    r3: "s3 = [1, 256, h3, w3]" and p3: "0 < h3" "0 < w3" and
    d3: "2 * h3 \<le> h2" "2 * w3 \<le> w2" and
    b3: "call_module (shapes tr) (residual_block 128 256 True) [b, 128, h2, w2] = Inr [b, 256, h3, w3]"
    by blast
  from residual_block_any_batch [OF s4 [unfolded r3], of b tr] b obtain h4 w4 where
    r4: "s4 = [1, 512, h4, w4]" and
    b4: "call_module (shapes tr) (residual_block 256 512 True) [b, 256, h3, w3] = Inr [b, 512, h4, w4]"
    by blast
  from max_pool_any_batch [OF s5 [unfolded r4], of tr b] obtain h5 w5 where
    r5: "s5 = [1, 512, h5, w5]" and
    b5: "layer_shape tr (MaxPool2d 2 2) [b, 512, h4, w4] = Inr [b, 512, h5, w5]"
    by blast
  from s5 r4 have big4: "2 \<le> h4" "2 \<le> w4"
    by (auto simp add: image_shape_pool split: if_splits)
  have big2: "2 \<le> h2" "2 \<le> w2"
    using p3 d3 by arith+
  have q2: "b * h2 * w2 \<noteq> 1"
    using big2 by (auto simp add: mult.assoc)
  have q4: "b * h4 * w4 \<noteq> 1"
    using big4 by (auto simp add: mult.assoc)
  have res1: "call_module (shapes tr)
                (Sequential [residual_block 128 128 False, residual_block 128 128 False])
                [b, 128, h2, w2] = Inr [b, 128, h2, w2]"
    using big2 q2 by (intro residual_pair_shape) auto
  have res3: "call_module (shapes tr)
                (Sequential [residual_block 512 512 False, residual_block 512 512 False])
                [b, 512, h4, w4] = Inr [b, 512, h4, w4]"
    using big4 q4 by (intro residual_pair_shape) auto
  have fs: "s5 ! 1 * s5 ! 2 * s5 ! 3 = prod_list [512, h5, w5]"
    by (simp add: r5)
  have plus: "plus_tensor (shapes tr) = plus_shape" and view: "view_rows (shapes tr) = view_rows_shape"
    and layer: "call_layer (shapes tr) = layer_shape tr"
    by (simp_all add: shapes_def)
  show ?thesis
    unfolding ResNet9_forward_def m fs
    by (simp only: ResNet9.simps plus view layer b1 b2 b3 b4 b5 res1 res3 and_then_Inr
          plus_shape_same view_rows_batch [OF b] linear_rows)
qed

text \<open>
  C2, amended. For a model that \<^verbatim>\<open>LeNet5(in_channels, num_classes, input_size)\<close> or
  \<^verbatim>\<open>ResNet9(in_channels, num_classes, input_size)\<close> has built, and a batch of at least one
  sample of shape \<open>(batch, in_channels, input_size[0], input_size[1])\<close>, \<^verbatim>\<open>forward\<close>
  returns a tensor of shape \<open>(batch, num_classes)\<close>, in training and in evaluation mode.
\<close>

theorem forward_returns_batch_by_classes:
  assumes "0 < batch"
  shows "(LeNet5_init in_channels num_classes (h, w) = Inr lenet \<longrightarrow>
            LeNet5_forward (shapes training) lenet [batch, in_channels, h, w] = Inr [batch, num_classes])
       \<and> (ResNet9_init in_channels num_classes (h, w) = Inr resnet \<longrightarrow>
            ResNet9_forward (shapes training) resnet [batch, in_channels, h, w] = Inr [batch, num_classes])"
  using assms LeNet5_forward_shape ResNet9_forward_shape by blast

lemma LeNet5_init_28:
  "LeNet5_init 1 10 (28, 28) =
     Inr \<lparr>conv1 = Conv2d 1 6 5 1 2, pool1 = AvgPool2d 2 2, conv2 = Conv2d 6 16 5 1 0,
          pool2 = AvgPool2d 2 2, feature_size = 400, fc1 = Linear 400 120, fc2 = Linear 120 84,
          fc3 = Linear 84 10\<rparr>"
  by (simp add: LeNet5_init_def Let_def image_shape_conv image_shape_pool)

lemma ResNet9_init_32:
  "ResNet9_init 3 10 (32, 32) =
     Inr \<lparr>prep = residual_block 3 64 False,
          layer1_head = residual_block 64 128 True,
          layer1_residual = Sequential [residual_block 128 128 False, residual_block 128 128 False],
          layer2 = residual_block 128 256 True,
          layer3_head = residual_block 256 512 True,
          layer3_residual = Sequential [residual_block 512 512 False, residual_block 512 512 False],
          pool = MaxPool2d 2 2, feature_size = 2048, linear = Linear 2048 10\<rparr>"
  by (simp add: ResNet9_init_def Let_def residual_block_shape image_shape_pool)

theorem forward_returns_batch_by_classes_witness:
  "LeNet5_forward (shapes False)
     \<lparr>conv1 = Conv2d 1 6 5 1 2, pool1 = AvgPool2d 2 2, conv2 = Conv2d 6 16 5 1 0,
      pool2 = AvgPool2d 2 2, feature_size = 400, fc1 = Linear 400 120, fc2 = Linear 120 84,
      fc3 = Linear 84 10\<rparr> [64, 1, 28, 28] = Inr [64, 10]
   \<and> ResNet9_forward (shapes True)
     \<lparr>prep = residual_block 3 64 False,
      layer1_head = residual_block 64 128 True,
      layer1_residual = Sequential [residual_block 128 128 False, residual_block 128 128 False],
      layer2 = residual_block 128 256 True,
      layer3_head = residual_block 256 512 True,
      layer3_residual = Sequential [residual_block 512 512 False, residual_block 512 512 False],
      pool = MaxPool2d 2 2, feature_size = 2048, linear = Linear 2048 10\<rparr> [64, 3, 32, 32]
       = Inr [64, 10]"
  using forward_returns_batch_by_classes
          [where batch = 64 and in_channels = 1 and num_classes = 10 and h = 28 and w = 28
             and training = False]
        forward_returns_batch_by_classes
          [where batch = 64 and in_channels = 3 and num_classes = 10 and h = 32 and w = 32
             and training = True]
        LeNet5_init_28 ResNet9_init_32
  by simp

text \<open>
  C2, as stated, fails on the empty batch: \<^verbatim>\<open>LeNet5()\<close> is built, and on an input of shape
  \<open>(0, 1, 28, 28)\<close> the layers give \<open>(0, 16, 5, 5)\<close>, which
  \<^verbatim>\<open>x.view(x.size(0), -1)\<close> refuses.
\<close>

theorem empty_batch_counterexample:
  "LeNet5_init 1 10 (28, 28) =
     Inr \<lparr>conv1 = Conv2d 1 6 5 1 2, pool1 = AvgPool2d 2 2, conv2 = Conv2d 6 16 5 1 0,
          pool2 = AvgPool2d 2 2, feature_size = 400, fc1 = Linear 400 120, fc2 = Linear 120 84,
          fc3 = Linear 84 10\<rparr>
   \<and> LeNet5_forward (shapes False)
        \<lparr>conv1 = Conv2d 1 6 5 1 2, pool1 = AvgPool2d 2 2, conv2 = Conv2d 6 16 5 1 0,
         pool2 = AvgPool2d 2 2, feature_size = 400, fc1 = Linear 400 120, fc2 = Linear 120 84,
         fc3 = Linear 84 10\<rparr> [0, 1, 28, 28] = Inl RuntimeError"
proof (intro conjI)
  show "LeNet5_init 1 10 (28, 28) =
     Inr \<lparr>conv1 = Conv2d 1 6 5 1 2, pool1 = AvgPool2d 2 2, conv2 = Conv2d 6 16 5 1 0,
          pool2 = AvgPool2d 2 2, feature_size = 400, fc1 = Linear 400 120, fc2 = Linear 120 84,
          fc3 = Linear 84 10\<rparr>"
    by (rule LeNet5_init_28)
  show "LeNet5_forward (shapes False)
        \<lparr>conv1 = Conv2d 1 6 5 1 2, pool1 = AvgPool2d 2 2, conv2 = Conv2d 6 16 5 1 0,
         pool2 = AvgPool2d 2 2, feature_size = 400, fc1 = Linear 400 120, fc2 = Linear 120 84,
         fc3 = Linear 84 10\<rparr> [0, 1, 28, 28] = Inl RuntimeError"
    by (simp add: LeNet5_forward_def shapes_def image_shape_conv image_shape_pool
          view_rows_shape_def)
qed


lemma residual_block_flow:
  "call_module dataflow (residual_block i out p) x =
     Inr (if p then Call (MaxPool2d 2 2) (Call ReLU (Call (BatchNorm2d out) (Call (Conv2d i out 3 1 1) x)))
          else Call ReLU (Call (BatchNorm2d out) (Call (Conv2d i out 3 1 1) x)))"
  by (simp add: residual_block_def dataflow_def)

text \<open>
  C1, as stated, fails: what \<^verbatim>\<open>residual_block(3, 64)\<close> returns is the activation of the
  normalized convolution of its input, with no addition, and its output \<open>(1, 64, 32, 32)\<close>
  on an input \<open>(1, 3, 32, 32)\<close> could not be added to that input.
\<close>

theorem residual_block_adds_nothing_counterexample:
  "call_module dataflow (residual_block 3 64 False) Input
     = Inr (Call ReLU (Call (BatchNorm2d 64) (Call (Conv2d 3 64 3 1 1) Input)))
   \<and> call_module dataflow (residual_block 3 64 False) Input
     \<noteq> Inr (Plus (Call ReLU (Call (BatchNorm2d 64) (Call (Conv2d 3 64 3 1 1) Input))) Input)
   \<and> call_module (shapes True) (residual_block 3 64 False) [1, 3, 32, 32] = Inr [1, 64, 32, 32]
   \<and> plus_shape [1, 64, 32, 32] [1, 3, 32, 32] = Inl RuntimeError"
  by (simp add: residual_block_flow residual_block_shape plus_shape_def)

text \<open>
  C1, amended. The module built by \<^verbatim>\<open>residual_block\<close> is convolution, batch
  normalization and ReLU, followed by max pooling when \<^verbatim>\<open>pool\<close> is set, and adds nothing.
  The additions are in \<^verbatim>\<open>ResNet9.forward\<close>, around \<^verbatim>\<open>layer1_residual\<close> and
  \<^verbatim>\<open>layer3_residual\<close>: the output of each of these two pairs of blocks is added to the
  input of the pair. The blocks \<^verbatim>\<open>prep\<close>, \<^verbatim>\<open>layer1_head\<close>, \<^verbatim>\<open>layer2\<close> and
  \<^verbatim>\<open>layer3_head\<close> pass their output on as it is.
\<close>

theorem skip_connections_around_residual_pairs:
  "call_module dataflow (residual_block i out False) x
     = Inr (Call ReLU (Call (BatchNorm2d out) (Call (Conv2d i out 3 1 1) x)))
   \<and> call_module dataflow (residual_block i out True) x
     = Inr (Call (MaxPool2d 2 2) (Call ReLU (Call (BatchNorm2d out) (Call (Conv2d i out 3 1 1) x))))
   \<and> (ResNet9_init in_channels num_classes input_size = Inr self \<longrightarrow>
        (let block = (\<lambda>i out x. Call ReLU (Call (BatchNorm2d out) (Call (Conv2d i out 3 1 1) x)));
             pooled = Call (MaxPool2d 2 2);
             x1 = pooled (block 64 128 (block in_channels 64 x));
             x2 = Plus (block 128 128 (block 128 128 x1)) x1;
             x3 = pooled (block 256 512 (pooled (block 128 256 x2)));
             x4 = Plus (block 512 512 (block 512 512 x3)) x3
         in ResNet9_forward dataflow self x = Inr (Call (linear self) (View (pooled x4)))))"
proof (intro conjI impI)
  assume "ResNet9_init in_channels num_classes input_size = Inr self"
  then obtain fs where
    m: "self = \<lparr>prep = residual_block in_channels 64 False,
             layer1_head = residual_block 64 128 True,
             layer1_residual = Sequential [residual_block 128 128 False, residual_block 128 128 False],
             layer2 = residual_block 128 256 True,
             layer3_head = residual_block 256 512 True,
             layer3_residual = Sequential [residual_block 512 512 False, residual_block 512 512 False],
             pool = MaxPool2d 2 2,
             feature_size = fs,
             linear = Linear fs num_classes\<rparr>"
    unfolding ResNet9_init_def Let_def and_then_eq_Inr by blast
  have ops: "call_layer dataflow = (\<lambda>l x. Inr (Call l x))"
    "plus_tensor dataflow = (\<lambda>a b. Inr (Plus a b))" "view_rows dataflow = (\<lambda>x. Inr (View x))"
    by (simp_all add: dataflow_def)
  show "let block = (\<lambda>i out x. Call ReLU (Call (BatchNorm2d out) (Call (Conv2d i out 3 1 1) x)));
             pooled = Call (MaxPool2d 2 2);
             x1 = pooled (block 64 128 (block in_channels 64 x));
             x2 = Plus (block 128 128 (block 128 128 x1)) x1;
             x3 = pooled (block 256 512 (pooled (block 128 256 x2)));
             x4 = Plus (block 512 512 (block 512 512 x3)) x3
         in ResNet9_forward dataflow self x = Inr (Call (linear self) (View (pooled x4)))"
    unfolding ResNet9_forward_def m Let_def
    by (simp add: residual_block_flow ops)
qed (simp_all add: residual_block_flow)

theorem skip_connections_around_residual_pairs_witness:
  "(let block = (\<lambda>i out x. Call ReLU (Call (BatchNorm2d out) (Call (Conv2d i out 3 1 1) x)));
        pooled = Call (MaxPool2d 2 2);
        x1 = pooled (block 64 128 (block 3 64 Input));
        x2 = Plus (block 128 128 (block 128 128 x1)) x1;
        x3 = pooled (block 256 512 (pooled (block 128 256 x2)));
        x4 = Plus (block 512 512 (block 512 512 x3)) x3
    in ResNet9_forward dataflow
         \<lparr>prep = residual_block 3 64 False,
          layer1_head = residual_block 64 128 True,
          layer1_residual = Sequential [residual_block 128 128 False, residual_block 128 128 False],
          layer2 = residual_block 128 256 True,
          layer3_head = residual_block 256 512 True,
          layer3_residual = Sequential [residual_block 512 512 False, residual_block 512 512 False],
          pool = MaxPool2d 2 2, feature_size = 2048, linear = Linear 2048 10\<rparr> Input
       = Inr (Call (Linear 2048 10) (View (pooled x4))))"
  using skip_connections_around_residual_pairs
          [where in_channels = 3 and num_classes = 10 and input_size = "(32, 32)" and x = Input] ResNet9_init_32
  by (simp add: Let_def)

section \<open>Properties of the loops\<close>


lemma test_batches_parameters:
  assumes "\<And>m d. model_parameters N (snd (model_call N m d)) = model_parameters N m"
  shows "model_parameters N (snd (test_batches hw N dev bs l c m)) = model_parameters N m"
proof (induction bs arbitrary: l c m)
  case Nil
  show ?case by simp
next
  case (Cons b bs)
  obtain data target where b: "b = (data, target)" by (cases b)
  show ?case
  proof (cases "to_device hw dev data")
    case (Inl e)
    then show ?thesis by (simp add: b)
  next
    case d: (Inr data')
    show ?thesis
    proof (cases "to_device hw dev target")
      case (Inl e)
      then show ?thesis by (simp add: b d)
    next
      case t: (Inr target')
      obtain r m' where call: "model_call N m data' = (r, m')" by (cases "model_call N m data'")
      have m': "model_parameters N m' = model_parameters N m"
        using assms [of m data'] by (simp add: call)
      show ?thesis
      proof (cases r)
        case (Inl e)
        then show ?thesis by (simp add: b d t call m')
      next
        case out: (Inr outp)
        show ?thesis
          using Cons.IH [of _ _ m'] m'
          by (simp add: b d t call out split: sum.splits prod.splits)
      qed
    qed
  qed
qed

text \<open>
  C9, as stated, fails: \<^verbatim>\<open>simple_test\<close> calls the model, and what the call does to the
  parameters is the model's business. A model whose call adds one to its parameter has
  parameter 0 before \<^verbatim>\<open>simple_test\<close> on one batch and 1 after it.
\<close>

theorem call_writes_parameter_counterexample:
  "model_parameters
     \<lparr>model_call = (\<lambda>m d. (Inr [[0, 0]], Suc m)), model_train = (\<lambda>m. m),
      model_eval = (\<lambda>m. m), model_parameters = (\<lambda>m. m)\<rparr>
     (model \<lparr>model = 0, optimizer = (), console = []\<rparr>) = 0
   \<and> model_parameters
     \<lparr>model_call = (\<lambda>m d. (Inr [[0, 0]], Suc m)), model_train = (\<lambda>m. m),
      model_eval = (\<lambda>m. m), model_parameters = (\<lambda>m. m)\<rparr>
     (model (snd (simple_test \<lparr>cuda_is_available = False, mps_is_available = False\<rparr>
        \<lparr>model_call = (\<lambda>m d. (Inr [[0, 0]], Suc m)), model_train = (\<lambda>m. m),
         model_eval = (\<lambda>m. m), model_parameters = (\<lambda>m. m)\<rparr>
        cpu \<lparr>batches = [([1 :: nat], [0])], dataset_len = 1\<rparr>
        \<lparr>model = 0, optimizer = (), console = []\<rparr>))) = 1"
  by (simp add: simple_test_def to_device_def cross_entropy_sum_def count_correct_def)

text \<open>
  C9, amended. \<^verbatim>\<open>simple_test\<close> itself writes no parameter and never calls the
  optimizer: it switches the model to evaluation mode and calls it on each batch. For every
  model whose \<^verbatim>\<open>eval()\<close> and whose call leave the parameters as they are, every loader
  and every device, the parameters and the optimizer after \<^verbatim>\<open>simple_test\<close> are those
  before it, whether it returns or raises.
\<close>

theorem simple_test_keeps_parameters:
  assumes "\<forall>m. model_parameters N (model_eval N m) = model_parameters N m"
      and "\<forall>m d. model_parameters N (snd (model_call N m d)) = model_parameters N m"
  shows "model_parameters N (model (snd (simple_test hw N dev test_loader w)))
           = model_parameters N (model w)
       \<and> optimizer (snd (simple_test hw N dev test_loader w)) = optimizer w"
proof -
  obtain r m where tb: "test_batches hw N dev (batches test_loader) 0 0 (model_eval N (model w)) = (r, m)"
    by (cases "test_batches hw N dev (batches test_loader) 0 0 (model_eval N (model w))")
  have "model_parameters N m = model_parameters N (model_eval N (model w))"
    using test_batches_parameters [of N hw dev "batches test_loader" 0 0 "model_eval N (model w)"] assms(2)
    by (simp add: tb)
  then have m: "model_parameters N m = model_parameters N (model w)"
    using assms(1) by simp
  show ?thesis
    by (cases r) (auto simp add: simple_test_def tb m Let_def split: prod.splits)
qed

theorem simple_test_keeps_parameters_witness:
  "model_parameters
     \<lparr>model_call = (\<lambda>m d. (Inr (map (\<lambda>x. [x * fst m, 0]) d), m)),
      model_train = (\<lambda>m. (fst m, True)), model_eval = (\<lambda>m. (fst m, False)),
      model_parameters = fst\<rparr>
     (model (snd (simple_test \<lparr>cuda_is_available = False, mps_is_available = False\<rparr>
        \<lparr>model_call = (\<lambda>m d. (Inr (map (\<lambda>x. [x * fst m, 0]) d), m)),
         model_train = (\<lambda>m. (fst m, True)), model_eval = (\<lambda>m. (fst m, False)),
         model_parameters = fst\<rparr>
        cpu \<lparr>batches = [([1, - 1], [0, 1]), ([2], [1])], dataset_len = 3\<rparr>
        \<lparr>model = (3 :: real, True), optimizer = (7 :: nat), console = []\<rparr>))) = 3
   \<and> optimizer (snd (simple_test \<lparr>cuda_is_available = False, mps_is_available = False\<rparr>
        \<lparr>model_call = (\<lambda>m d. (Inr (map (\<lambda>x. [x * fst m, 0]) d), m)),
         model_train = (\<lambda>m. (fst m, True)), model_eval = (\<lambda>m. (fst m, False)),
         model_parameters = fst\<rparr>
        cpu \<lparr>batches = [([1, - 1], [0, 1]), ([2], [1])], dataset_len = 3\<rparr>
        \<lparr>model = (3 :: real, True), optimizer = (7 :: nat), console = []\<rparr>)) = 7"
  using simple_test_keeps_parameters
    [of "\<lparr>model_call = (\<lambda>m d. (Inr (map (\<lambda>x. [x * fst m, 0]) d), m)),
         model_train = (\<lambda>m. (fst m, True)), model_eval = (\<lambda>m. (fst m, False)),
         model_parameters = fst\<rparr>"
        "\<lparr>cuda_is_available = False, mps_is_available = False\<rparr>" cpu
        "\<lparr>batches = [([1, - 1], [0, 1]), ([2], [1])], dataset_len = 3\<rparr>"
        "\<lparr>model = (3 :: real, True), optimizer = (7 :: nat), console = []\<rparr>"]
  by simp




























end
